theory Spec2Isabelle
  imports Complex_Main "HOL-Library.Word"
begin

section \<open>Data model\<close>

text \<open>
  The live voice engine is the React component \<open>LiveTutor\<close> of
  \<^verbatim>\<open>src/components/LiveTutor.tsx\<close>. Its state is the component's \<open>useState\<close>
  cells and \<open>useRef\<close> cells; every handler (\<open>connectToLive\<close>, \<open>onmessage\<close>,
  \<open>toggleMic\<close>, \<open>disconnectVoice\<close>, ...) runs on the single JavaScript event loop,
  so a handler is a function from the state before to the state after, and what the
  browser or the network decides (the audio clock, \<open>Date.now()\<close>, whether the
  microphone is granted) is an explicit argument.

  JavaScript strings are modelled as \<open>string\<close> holding their UTF-8 bytes; times of the
  audio clock and durations are \<open>real\<close>.
\<close>

subsection \<open>\<open>types.ts\<close>: the language profile\<close>

record Language =
  id_lang :: string
  name :: string
  nativeName :: string
  description :: string
  courseCount :: nat
  image_lang :: string
  color :: string
  buttonColor :: string
  voiceName :: string

subsection \<open>\<open>LiveTutor.tsx\<close>: messages of the transcript\<close>

datatype role = User | Model

record Message =
  id_msg :: string
  role :: role
  text_msg :: string

subsection \<open>Browser objects the component holds\<close>

text \<open>An \<open>AudioContext\<close> is known by its \<open>state\<close> attribute.\<close>

datatype AudioContextState = Suspended | Running | Closed

text \<open>
  A \<open>MediaStream\<close> is its list of tracks; \<open>track.stop()\<close> ends a track. The streams
  that \<open>getUserMedia\<close> has returned live in a store, in the order they were obtained, and
  a reference to a stream is its position there: a stream that is no longer referenced
  is still in the store, with its tracks as they were left.
\<close>

datatype track = Live | Ended

type_synonym MediaStream = "track list"

text \<open>
  An \<open>AudioBufferSourceNode\<close> created by \<open>onmessage\<close>: a number identifying the
  node, the time passed to \<open>source.start\<close> and the \<open>duration\<close> of its buffer.
\<close>

record AudioBufferSourceNode =
  node :: nat
  startedAt :: real
  duration :: real

text \<open>
  The promise returned by \<open>ai.live.connect\<close>. While it is pending, the reactions
  registered with \<open>.then\<close> wait in order; each reaction of this program sends one
  frame, so the queue is the list of those frames.
\<close>

datatype promise = Pending "string list" | Fulfilled | Rejected

datatype socket = Connecting | Opened | ClosedSocket

text \<open>
  The callbacks handed to \<open>ai.live.connect\<close> are closures created inside
  \<open>connectToLive\<close>. They see the constants of the render in which \<open>connectToLive\<close>
  was called: \<open>language\<close>, \<open>currentLiveUserText\<close> and \<open>currentLiveModelText\<close> are
  fixed in them for the life of the connection, whatever the state cells hold later.
\<close>

record closure =
  capturedLanguage :: Language
  capturedUserText :: string
  capturedModelText :: string

text \<open>
  A live session: the closure of its callbacks, the promise stored in
  \<open>liveSessionRef\<close>, the state of the underlying socket (changed by the network
  only) and the frames handed to \<open>session.sendRealtimeInput\<close> so far.
\<close>

record LiveSession =
  callbacks :: closure
  sessionPromise :: promise
  socket :: socket
  sendRealtimeInput :: "string list"

subsection \<open>The component state\<close>

record LiveTutor =
  language :: Language
  isConnected :: bool
  isMicOn :: bool
  voiceStatus :: string
  voiceError :: "string option"
  voiceMessages :: "Message list"
  currentLiveUserText :: string
  currentLiveModelText :: string
  inputAudioContextRef :: "AudioContextState option"
  outputAudioContextRef :: "AudioContextState option"
  nextStartTimeRef :: real
  sourcesRef :: "AudioBufferSourceNode list"
  liveSessionRef :: "LiveSession option"
  scriptProcessorRef :: "nat option"
  streamRef :: "nat option"
  isConnectingRef :: bool
  mediaStreams :: "MediaStream list"
  stopped :: "nat list"
  createdNodes :: nat
  connectCalls :: nat

text \<open>
  \<open>language\<close> is the component's prop. The last four fields are not cells of the
  component: \<open>mediaStreams\<close> is the store of the streams obtained so far,
  \<open>stopped\<close> logs the nodes on which \<open>stop()\<close> was called,
  \<open>createdNodes\<close> counts the calls of \<open>createBufferSource\<close> (and numbers the nodes),
  \<open>connectCalls\<close> counts the calls of \<open>ai.live.connect\<close>. A \<open>ScriptProcessorNode\<close>
  is known by its buffer size.
\<close>

subsection \<open>Messages of the server\<close>

text \<open>
  The fields of a \<open>LiveServerMessage\<close> that \<open>onmessage\<close> reads:
  \<open>serverContent.modelTurn.parts[0].inlineData.data\<close>,
  \<open>serverContent.inputTranscription.text\<close>, \<open>serverContent.outputTranscription.text\<close>,
  \<open>serverContent.turnComplete\<close> and \<open>serverContent.interrupted\<close>. An absent field
  is \<open>None\<close> or \<open>False\<close>.
\<close>

record LiveServerMessage =
  inlineData :: "string option"
  inputTranscription :: "string option"
  outputTranscription :: "string option"
  turnComplete :: bool
  interrupted :: bool

text \<open>
  What the browser supplies while one message is handled: \<open>ctx.currentTime\<close>,
  \<open>Date.now()\<close>, and the \<open>duration\<close> of the buffer that \<open>decodeAudioData\<close>
  (of \<open>services/audioUtils\<close>) returns for the message's audio.
\<close>

record clock =
  currentTime :: real
  dateNow :: nat
  bufferDuration :: real

text \<open>
  What the browser and the SDK decide while a user action is handled: the state of a
  newly constructed \<open>AudioContext\<close> (\<open>None\<close> when the constructor throws), whether
  \<open>resume()\<close> succeeds, whether \<open>ai.live.connect\<close> returns a promise (rather than
  throwing), and the stream of \<open>getUserMedia\<close> (\<open>None\<close> when it is refused).
\<close>

record browser =
  newAudioContext :: "AudioContextState option"
  resumeOk :: bool
  connectOk :: bool
  getUserMedia :: "MediaStream option"

text \<open>How a call ends: it returns, or it throws; either way with the state it left.\<close>

datatype 'a completion = Returns 'a | Throws 'a

section \<open>Strings\<close>

text \<open>JavaScript's truthiness of an optional string: present and not empty.\<close>

fun truthy :: "string option \<Rightarrow> bool" where
  "truthy None = False"
| "truthy (Some t) = (t \<noteq> [])"

text \<open>
  \<open>String.prototype.trim\<close> removes white space and line terminators from both ends.
  On UTF-8 bytes these are the six ASCII characters and the encodings of U+00A0, U+1680,
  U+2000 to U+200A, U+2028, U+2029, U+202F, U+205F, U+3000 and U+FEFF.
\<close>

definition ascii_space :: "char \<Rightarrow> bool" where
  "ascii_space c = (c \<in> {CHR 0x09, CHR 0x0A, CHR 0x0B, CHR 0x0C, CHR 0x0D, CHR 0x20})"

definition wide_spaces :: "string list" where
  "wide_spaces =
     [[CHR 0xC2, CHR 0xA0], [CHR 0xE1, CHR 0x9A, CHR 0x80],
      [CHR 0xE2, CHR 0x80, CHR 0x80], [CHR 0xE2, CHR 0x80, CHR 0x81],
      [CHR 0xE2, CHR 0x80, CHR 0x82], [CHR 0xE2, CHR 0x80, CHR 0x83],
      [CHR 0xE2, CHR 0x80, CHR 0x84], [CHR 0xE2, CHR 0x80, CHR 0x85],
      [CHR 0xE2, CHR 0x80, CHR 0x86], [CHR 0xE2, CHR 0x80, CHR 0x87],
      [CHR 0xE2, CHR 0x80, CHR 0x88], [CHR 0xE2, CHR 0x80, CHR 0x89],
      [CHR 0xE2, CHR 0x80, CHR 0x8A], [CHR 0xE2, CHR 0x80, CHR 0xA8],
      [CHR 0xE2, CHR 0x80, CHR 0xA9], [CHR 0xE2, CHR 0x80, CHR 0xAF],
      [CHR 0xE2, CHR 0x81, CHR 0x9F], [CHR 0xE3, CHR 0x80, CHR 0x80],
      [CHR 0xEF, CHR 0xBB, CHR 0xBF]]"

fun trimStart :: "string \<Rightarrow> string" where
  "trimStart [] = []"
| "trimStart (c # cs) =
     (if ascii_space c then trimStart cs
      else if take 2 (c # cs) \<in> set wide_spaces then trimStart (drop 1 cs)
      else if take 3 (c # cs) \<in> set wide_spaces then trimStart (drop 2 cs)
      else c # cs)"

fun trimEnd_rev :: "string \<Rightarrow> string" where
  "trimEnd_rev [] = []"
| "trimEnd_rev (c # cs) =
     (if ascii_space c then trimEnd_rev cs
      else if rev (take 2 (c # cs)) \<in> set wide_spaces then trimEnd_rev (drop 1 cs)
      else if rev (take 3 (c # cs)) \<in> set wide_spaces then trimEnd_rev (drop 2 cs)
      else c # cs)"

definition trim :: "string \<Rightarrow> string" where
  "trim t = rev (trimEnd_rev (rev (trimStart t)))"

text \<open>Decimal digits of a number, as \<open>Date.now() + '_u'\<close> renders them.\<close>

fun digits :: "nat \<Rightarrow> string" where
  "digits n =
     (if n < 10 then [char_of (48 + n)] else digits (n div 10) @ [char_of (48 + n mod 10)])"

text \<open>Letters outside ASCII, in UTF-8.\<close>

definition a_acute :: string where "a_acute = [CHR 0xC3, CHR 0xA1]"
definition a_tilde :: string where "a_tilde = [CHR 0xC3, CHR 0xA3]"
definition c_cedilla :: string where "c_cedilla = [CHR 0xC3, CHR 0xA7]"
definition e_circumflex :: string where "e_circumflex = [CHR 0xC3, CHR 0xAA]"
definition n_tilde :: string where "n_tilde = [CHR 0xC3, CHR 0xB1]"
definition o_acute :: string where "o_acute = [CHR 0xC3, CHR 0xB3]"

section \<open>The voice session: \<open>LiveTutor.tsx\<close>\<close>

definition initial :: "Language \<Rightarrow> LiveTutor" where
  "initial l =
     \<lparr>language = l, isConnected = False, isMicOn = False,
      voiceStatus = ''Pronto para conectar'', voiceError = None, voiceMessages = [],
      currentLiveUserText = [], currentLiveModelText = [],
      inputAudioContextRef = None, outputAudioContextRef = None, nextStartTimeRef = 0,
      sourcesRef = [], liveSessionRef = None, scriptProcessorRef = None, streamRef = None,
      isConnectingRef = False, mediaStreams = [], stopped = [], createdNodes = 0,
      connectCalls = 0\<rparr>"

subsection \<open>\<open>ensureAudioContexts\<close>\<close>

definition ensureAudioContexts :: "browser \<Rightarrow> LiveTutor \<Rightarrow> LiveTutor completion" where
  "ensureAudioContexts b s =
     (if inputAudioContextRef s = None \<and> newAudioContext b = None then Throws s
      else
        let s1 = (if inputAudioContextRef s = None
                  then s\<lparr>inputAudioContextRef := newAudioContext b\<rparr> else s)
        in if outputAudioContextRef s1 = None \<and> newAudioContext b = None then Throws s1
        else
          let s2 = (if outputAudioContextRef s1 = None
                    then s1\<lparr>outputAudioContextRef := newAudioContext b\<rparr> else s1)
          in if inputAudioContextRef s2 = Some Suspended \<and> \<not> resumeOk b then Throws s2
          else
            let s3 = (if inputAudioContextRef s2 = Some Suspended
                      then s2\<lparr>inputAudioContextRef := Some Running\<rparr> else s2)
            in if outputAudioContextRef s3 = Some Suspended \<and> \<not> resumeOk b then Throws s3
            else
              Returns (if outputAudioContextRef s3 = Some Suspended
                       then s3\<lparr>outputAudioContextRef := Some Running\<rparr> else s3))"

subsection \<open>The callbacks of the connection\<close>

definition onopen :: "closure \<Rightarrow> LiveTutor \<Rightarrow> LiveTutor" where
  "onopen c s =
     s\<lparr>isConnected := True, voiceStatus := ''Conectado. Pode falar!'',
       isConnectingRef := False,
       voiceMessages :=
         [\<lparr>id_msg = ''start'', role = Model,
           text_msg = ''(Conectado) Ol'' @ a_acute @ ''! Eu sou sua tutora. Podemos falar em ''
             @ nativeName (capturedLanguage c) @ '' ou Portugu'' @ e_circumflex @ ''s.''\<rparr>]\<rparr>"

text \<open>
  \<open>onmessage\<close>, first block (audio playback). The cursor \<open>nextStartTimeRef\<close> is raised
  to the clock, the node is started at the cursor, the cursor advances by the buffer's
  duration, and the node joins \<open>sourcesRef\<close>. The handler awaits \<open>decodeAudioData\<close>
  between the first and the second of these; it is taken to run to its end before the
  next message is handled, as it does when the decoding needs no further task.
\<close>

definition playAudio :: "clock \<Rightarrow> LiveServerMessage \<Rightarrow> LiveTutor \<Rightarrow> LiveTutor" where
  "playAudio k m s =
     (if truthy (inlineData m) \<and> outputAudioContextRef s \<noteq> None then
        let startAt = max (nextStartTimeRef s) (currentTime k);
            source = \<lparr>node = createdNodes s, startedAt = startAt,
                      duration = bufferDuration k\<rparr>
        in s\<lparr>nextStartTimeRef := startAt + bufferDuration k,
             sourcesRef := sourcesRef s @ [source],
             createdNodes := Suc (createdNodes s)\<rparr>
      else s)"

text \<open>The listener of a node's \<open>ended\<close> event deletes the node from \<open>sourcesRef\<close>.\<close>

definition ended :: "nat \<Rightarrow> LiveTutor \<Rightarrow> LiveTutor" where
  "ended n s = s\<lparr>sourcesRef := filter (\<lambda>x. node x \<noteq> n) (sourcesRef s)\<rparr>"

text \<open>Second block: the transcription deltas, \<open>prev => prev + inTrans\<close>.\<close>

definition inTrans :: "LiveServerMessage \<Rightarrow> LiveTutor \<Rightarrow> LiveTutor" where
  "inTrans m s =
     (case inputTranscription m of
        Some t \<Rightarrow> if t \<noteq> [] then s\<lparr>currentLiveUserText := currentLiveUserText s @ t\<rparr> else s
      | None \<Rightarrow> s)"

definition outTrans :: "LiveServerMessage \<Rightarrow> LiveTutor \<Rightarrow> LiveTutor" where
  "outTrans m s =
     (case outputTranscription m of
        Some t \<Rightarrow> if t \<noteq> []
                 then s\<lparr>currentLiveModelText := currentLiveModelText s @ t,
                        voiceStatus := ''Falando...''\<rparr>
                 else s
      | None \<Rightarrow> s)"

text \<open>
  Third block: the commit at \<open>turnComplete\<close>. The updater passed to
  \<open>setVoiceMessages\<close> receives the current log as \<open>prev\<close>, but the names
  \<open>currentLiveUserText\<close> and \<open>currentLiveModelText\<close> in it are those of the closure.
  The \<open>set...('')\<close> calls inside the updater are queued after the appends of the
  same message.
\<close>

definition commitTurn ::
  "closure \<Rightarrow> clock \<Rightarrow> LiveServerMessage \<Rightarrow> LiveTutor \<Rightarrow> LiveTutor" where
  "commitTurn c k m s =
     (if turnComplete m then
        let u = (trim (capturedUserText c) \<noteq> []);
            t = (trim (capturedModelText c) \<noteq> [])
        in s\<lparr>voiceMessages :=
               voiceMessages s
               @ (if u then [\<lparr>id_msg = digits (dateNow k) @ ''_u'', role = User,
                               text_msg = capturedUserText c\<rparr>] else [])
               @ (if t then [\<lparr>id_msg = digits (dateNow k) @ ''_m'', role = Model,
                               text_msg = capturedModelText c\<rparr>] else []),
             currentLiveUserText := (if u then [] else currentLiveUserText s),
             currentLiveModelText := (if t then [] else currentLiveModelText s),
             voiceStatus := ''Sua vez...''\<rparr>
      else s)"

text \<open>Fourth block: interruption.\<close>

definition interrupt :: "LiveServerMessage \<Rightarrow> LiveTutor \<Rightarrow> LiveTutor" where
  "interrupt m s =
     (if interrupted m then
        s\<lparr>stopped := stopped s @ map node (sourcesRef s), sourcesRef := [],
          nextStartTimeRef := 0, voiceStatus := ''Interrompido''\<rparr>
      else s)"

definition onmessage ::
  "closure \<Rightarrow> clock \<Rightarrow> LiveServerMessage \<Rightarrow> LiveTutor \<Rightarrow> LiveTutor" where
  "onmessage c k m s = interrupt m (commitTurn c k m (outTrans m (inTrans m (playAudio k m s))))"

definition onclose :: "LiveTutor \<Rightarrow> LiveTutor" where
  "onclose s =
     s\<lparr>isConnected := False, voiceStatus := ''Desconectado'', isMicOn := False,
       isConnectingRef := False\<rparr>"

definition onerror :: "LiveTutor \<Rightarrow> LiveTutor" where
  "onerror s =
     s\<lparr>voiceError := Some (''Erro na conex'' @ a_tilde @ ''o''), isConnected := False,
       isConnectingRef := False\<rparr>"

subsection \<open>\<open>connectToLive\<close>\<close>

text \<open>
  The guard comes first. Then the audio contexts are ensured (a failure sets the error
  and returns), the connection is marked as being made, and \<open>ai.live.connect\<close> is called
  with callbacks that close over this render's \<open>language\<close>, \<open>currentLiveUserText\<close> and
  \<open>currentLiveModelText\<close>; the promise goes into \<open>liveSessionRef\<close>.
\<close>

definition connectToLive :: "browser \<Rightarrow> LiveTutor \<Rightarrow> LiveTutor" where
  "connectToLive b s =
     (if isConnectingRef s \<or> isConnected s then s
      else
        case ensureAudioContexts b s of
          Throws s1 \<Rightarrow>
            s1\<lparr>voiceError := Some (''Permiss'' @ a_tilde @ ''o de '' @ a_acute
                                    @ ''udio necess'' @ a_acute @ ''ria.'')\<rparr>
        | Returns s1 \<Rightarrow>
            let s2 = s1\<lparr>isConnectingRef := True, voiceError := None,
                         voiceStatus := ''Conectando...'',
                         connectCalls := Suc (connectCalls s1)\<rparr>
            in if connectOk b then
                 s2\<lparr>liveSessionRef :=
                      Some \<lparr>callbacks = \<lparr>capturedLanguage = language s,
                                            capturedUserText = currentLiveUserText s,
                                            capturedModelText = currentLiveModelText s\<rparr>,
                            sessionPromise = Pending [], socket = Connecting,
                            sendRealtimeInput = []\<rparr>\<rparr>
               else
                 s2\<lparr>voiceError := Some ''Falha ao iniciar servidor'',
                      isConnectingRef := False\<rparr>)"

subsection \<open>\<open>toggleMic\<close> and the capture callback\<close>

text \<open>
  \<open>onaudioprocess\<close> receives the frame already encoded by \<open>float32ToB64PCM\<close>. With no
  promise in \<open>liveSessionRef\<close> nothing happens; otherwise the send is registered with
  \<open>.then\<close>: it waits while the promise is pending, runs when the promise is
  fulfilled, and never runs when the promise is rejected.
\<close>

definition onaudioprocess :: "string \<Rightarrow> LiveTutor \<Rightarrow> LiveTutor" where
  "onaudioprocess base64PCM s =
     (case liveSessionRef s of
        None \<Rightarrow> s
      | Some session \<Rightarrow>
          (case sessionPromise session of
             Pending waiting \<Rightarrow>
               s\<lparr>liveSessionRef :=
                    Some (session\<lparr>sessionPromise := Pending (waiting @ [base64PCM])\<rparr>)\<rparr>
           | Fulfilled \<Rightarrow>
               s\<lparr>liveSessionRef :=
                    Some (session\<lparr>sendRealtimeInput :=
                                     sendRealtimeInput session @ [base64PCM]\<rparr>)\<rparr>
           | Rejected \<Rightarrow> s))"

text \<open>The promise settles: the waiting reactions run in order, or are discarded.\<close>

definition fulfil :: "LiveSession \<Rightarrow> LiveSession" where
  "fulfil session =
     (case sessionPromise session of
        Pending waiting \<Rightarrow>
          session\<lparr>sessionPromise := Fulfilled,
                    sendRealtimeInput := sendRealtimeInput session @ waiting\<rparr>
      | _ \<Rightarrow> session)"

definition reject :: "LiveSession \<Rightarrow> LiveSession" where
  "reject session =
     (case sessionPromise session of
        Pending waiting \<Rightarrow> session\<lparr>sessionPromise := Rejected\<rparr>
      | _ \<Rightarrow> session)"

text \<open>
  \<open>if (streamRef.current) streamRef.current.getTracks().forEach(t => t.stop())\<close>: every
  track of the referenced stream is ended, in the store; with no reference nothing
  happens.
\<close>

fun stopTracks :: "nat option \<Rightarrow> MediaStream list \<Rightarrow> MediaStream list" where
  "stopTracks None streams = streams"
| "stopTracks (Some i) streams =
     (if i < length streams then streams[i := map (\<lambda>t. Ended) (streams ! i)] else streams)"

definition toggleMic :: "browser \<Rightarrow> LiveTutor \<Rightarrow> LiveTutor completion" where
  "toggleMic b s =
     (if \<not> isConnected s then Returns (connectToLive b s)
      else
        case ensureAudioContexts b s of
          Throws s1 \<Rightarrow> Throws s1
        | Returns s1 \<Rightarrow>
            if isMicOn s then
              Returns (s1\<lparr>mediaStreams := stopTracks (streamRef s1) (mediaStreams s1),
                          streamRef := None, scriptProcessorRef := None, isMicOn := False,
                          voiceStatus := ''Microfone pausado''\<rparr>)
            else
              (case getUserMedia b of
                 None \<Rightarrow> Returns (s1\<lparr>voiceError := Some ''Sem acesso ao microfone''\<rparr>)
               | Some stream \<Rightarrow>
                   let s2 = s1\<lparr>mediaStreams := mediaStreams s1 @ [stream],
                               streamRef := Some (length (mediaStreams s1))\<rparr>
                   in if inputAudioContextRef s2 = None then Returns s2
                      else Returns (s2\<lparr>scriptProcessorRef := Some 4096, isMicOn := True,
                                       voiceStatus := ''Ouvindo...''\<rparr>)))"

subsection \<open>\<open>disconnectVoice\<close>\<close>

text \<open>
  The tracks of the stream in \<open>streamRef\<close> are stopped (the reference stays), both audio
  contexts are closed and their references cleared, and the state cells are reset.
  \<open>liveSessionRef\<close> and \<open>scriptProcessorRef\<close> are not touched.
\<close>

definition disconnectVoice :: "LiveTutor \<Rightarrow> LiveTutor" where
  "disconnectVoice s =
     s\<lparr>mediaStreams := stopTracks (streamRef s) (mediaStreams s),
       inputAudioContextRef := None, outputAudioContextRef := None,
       isConnected := False, isMicOn := False, voiceMessages := [],
       currentLiveUserText := [], currentLiveModelText := []\<rparr>"

subsection \<open>The event loop\<close>

text \<open>
  One event at a time: a user action, a callback of the connection (delivered to the
  session in \<open>liveSessionRef\<close>, with that session's closure), the settling of the
  promise, a captured frame (while a processor exists), or the end of a node.
\<close>

datatype event =
    ClickMic browser
  | SwitchToChat
  | Open
  | Message clock LiveServerMessage
  | Close
  | Error
  | Fulfil
  | Reject
  | AudioProcess string
  | SourceEnded nat

definition state_of :: "'a completion \<Rightarrow> 'a" where
  "state_of r = (case r of Returns s \<Rightarrow> s | Throws s \<Rightarrow> s)"

definition with_session ::
  "(LiveSession \<Rightarrow> LiveSession) \<Rightarrow> (closure \<Rightarrow> LiveTutor \<Rightarrow> LiveTutor) \<Rightarrow> LiveTutor
   \<Rightarrow> LiveTutor" where
  "with_session net handler s =
     (case liveSessionRef s of
        None \<Rightarrow> s
      | Some session \<Rightarrow> handler (callbacks session) (s\<lparr>liveSessionRef := Some (net session)\<rparr>))"

fun step :: "event \<Rightarrow> LiveTutor \<Rightarrow> LiveTutor" where
  "step (ClickMic b) s = state_of (toggleMic b s)"
| "step SwitchToChat s = disconnectVoice s"
| "step Open s = with_session (\<lambda>x. x\<lparr>socket := Opened\<rparr>) onopen s"
| "step (Message k m) s = with_session (\<lambda>x. x) (\<lambda>c. onmessage c k m) s"
| "step Close s = with_session (\<lambda>x. x\<lparr>socket := ClosedSocket\<rparr>) (\<lambda>c. onclose) s"
| "step Error s = with_session (\<lambda>x. x) (\<lambda>c. onerror) s"
| "step Fulfil s = with_session fulfil (\<lambda>c x. x) s"
| "step Reject s = with_session reject (\<lambda>c x. x) s"
| "step (AudioProcess f) s = (if scriptProcessorRef s = None then s else onaudioprocess f s)"
| "step (SourceEnded n) s = ended n s"

definition run :: "event list \<Rightarrow> LiveTutor \<Rightarrow> LiveTutor" where
  "run es s = fold step es s"

text \<open>The events of the specification, as messages carrying one field each.\<close>

definition noContent :: LiveServerMessage where
  "noContent =
     \<lparr>inlineData = None, inputTranscription = None, outputTranscription = None,
      turnComplete = False, interrupted = False\<rparr>"

definition AudioChunk :: "string \<Rightarrow> LiveServerMessage" where
  "AudioChunk d = noContent\<lparr>inlineData := Some d\<rparr>"

definition InputTranscriptDelta :: "string \<Rightarrow> LiveServerMessage" where
  "InputTranscriptDelta t = noContent\<lparr>inputTranscription := Some t\<rparr>"

definition OutputTranscriptDelta :: "string \<Rightarrow> LiveServerMessage" where
  "OutputTranscriptDelta t = noContent\<lparr>outputTranscription := Some t\<rparr>"

definition TurnComplete :: LiveServerMessage where
  "TurnComplete = noContent\<lparr>turnComplete := True\<rparr>"

definition Interrupted :: LiveServerMessage where
  "Interrupted = noContent\<lparr>interrupted := True\<rparr>"

section \<open>The catalogue: \<open>constants.tsx\<close>\<close>

definition LANGUAGES :: "Language list" where
  "LANGUAGES =
     [\<lparr>id_lang = ''it'', name = ''Italiano'', nativeName = ''Italiano'',
       description = ''Arte & Tradi'' @ c_cedilla @ a_tilde @ ''o'', courseCount = 3,
       image_lang = ''https://picsum.photos/id/1040/400/500'', color = ''bg-teal-600'',
       buttonColor = ''bg-emerald-500'', voiceName = ''Kore''\<rparr>,
      \<lparr>id_lang = ''es'', name = ''Espanhol'', nativeName = ''Espa'' @ n_tilde @ ''ol'',
       description = ''Cultura & Conex'' @ a_tilde @ ''o'', courseCount = 0,
       image_lang = ''https://picsum.photos/id/1015/400/500'', color = ''bg-orange-600'',
       buttonColor = ''bg-orange-500'', voiceName = ''Puck''\<rparr>,
      \<lparr>id_lang = ''us'', name = ''Ingl'' @ e_circumflex @ ''s'', nativeName = ''English'',
       description = ''Neg'' @ o_acute @ ''cios & Viagens'', courseCount = 0,
       image_lang = ''https://picsum.photos/id/1068/400/500'', color = ''bg-blue-600'',
       buttonColor = ''bg-indigo-500'', voiceName = ''Fenrir''\<rparr>,
      \<lparr>id_lang = ''br'', name = ''Portugu'' @ e_circumflex @ ''s'',
       nativeName = ''Portugu'' @ e_circumflex @ ''s'',
       description = ''Diversidade & Ritmo'', courseCount = 0,
       image_lang = ''https://picsum.photos/id/1016/400/500'', color = ''bg-green-600'',
       buttonColor = ''bg-green-500'', voiceName = ''Zephyr''\<rparr>]"

section \<open>Selecting a language: \<open>App.tsx\<close>\<close>

text \<open>
  The state of \<open>App\<close> is \<open>selectedLanguage\<close>; \<open>window.location\<close> is read at mount and
  rewritten by \<open>history.pushState\<close>.
\<close>

record Location =
  pathname :: string
  search :: string

record App =
  selectedLanguage :: "Language option"
  location :: Location










text \<open>
  \<open>history.pushState(_, '', url)\<close> resolves the URL against the document's and replaces
  the location, or throws a \<open>SecurityError\<close> and leaves the location as it is. The
  fragment is cut at \<open>#\<close> and the query starts at the first \<open>?\<close>. An empty URL, or a
  fragment alone, keeps path and query; a query alone keeps the path. A path that begins
  with two slashes (a backslash counts as a slash) names an authority after its leading
  slashes: the URL is accepted only if that authority is the document's own, and
  whether it is, is the browser's judgement, the parameter \<open>sameOrigin\<close>. A path that
  begins with one slash replaces the path; any other path is resolved against the
  directory of the current one. \<open>location.search\<close> is empty for an empty query.

  Left as they are: dot segments and the characters that the URL parser would remove
  or percent-encode (\<open>location.pathname\<close> and the ids of the catalogue have none), and a
  URL with a scheme of its own, which the program never builds.
\<close>

definition slash :: "char \<Rightarrow> bool" where
  "slash c = (c = CHR ''/'' \<or> c = CHR 0x5C)"

definition forward :: "string \<Rightarrow> string" where
  "forward path = map (\<lambda>c. if c = CHR 0x5C then CHR ''/'' else c) path"

definition directory :: "string \<Rightarrow> string" where
  "directory path = rev (dropWhile (\<lambda>c. c \<noteq> CHR ''/'') (rev path))"

definition doubleSlash :: "string \<Rightarrow> bool" where
  "doubleSlash path = (2 \<le> length (takeWhile slash path))"

definition pushState :: "(string \<Rightarrow> bool) \<Rightarrow> string \<Rightarrow> Location \<Rightarrow> Location completion" where
  "pushState sameOrigin url loc =
     (let noFragment = takeWhile (\<lambda>c. c \<noteq> CHR ''#'') url;
          path = takeWhile (\<lambda>c. c \<noteq> CHR ''?'') noFragment;
          query = dropWhile (\<lambda>c. c \<noteq> CHR ''?'') noFragment;
          newSearch = (if query = ''?'' then [] else query)
      in if noFragment = [] then Returns loc
         else if path = [] then Returns (loc\<lparr>search := newSearch\<rparr>)
         else if doubleSlash path then
           (let authority = takeWhile (\<lambda>c. \<not> slash c) (dropWhile slash path);
                rest = dropWhile (\<lambda>c. \<not> slash c) (dropWhile slash path)
            in if authority \<noteq> [] \<and> sameOrigin authority
               then Returns \<lparr>pathname = (if rest = [] then ''/'' else forward rest),
                             search = newSearch\<rparr>
               else Throws loc)
         else if takeWhile slash path \<noteq> [] then
           Returns \<lparr>pathname = forward path, search = newSearch\<rparr>
         else
           Returns \<lparr>pathname = directory (pathname loc) @ forward path,
                     search = newSearch\<rparr>)"



definition handleExit :: "(string \<Rightarrow> bool) \<Rightarrow> App \<Rightarrow> App completion" where
  "handleExit sameOrigin app =
     (let cleared = app\<lparr>selectedLanguage := None\<rparr>
      in case pushState sameOrigin (pathname (location app)) (location app) of
           Returns loc \<Rightarrow> Returns (cleared\<lparr>location := loc\<rparr>)
         | Throws loc \<Rightarrow> Throws cleared)"


section \<open>The PCM codec\<close>

text \<open>
  Modelled from the spec: \<open>float32ToB64PCM\<close>, \<open>base64ToUint8Array\<close> and
  \<open>decodeAudioData\<close> are imported from \<open>services/audioUtils\<close>, which is not among the
  sources. The specification's codec: \<open>encode\<close> quantizes each sample to a signed
  16-bit integer, rounding half away from zero and clamping to the representable range,
  and writes it little-endian; \<open>decode\<close> is the inverse scaling and fails on an odd
  number of bytes. The scale is the full scale of 16 bits, 32768. Samples are \<open>real\<close>:
  the scaling by a power of two is exact on binary floating-point numbers.
\<close>

datatype CodecError = OddLength

definition roundHalfAway :: "real \<Rightarrow> int" where
  "roundHalfAway x = (if 0 \<le> x then \<lfloor>x + 1 / 2\<rfloor> else - \<lfloor>- x + 1 / 2\<rfloor>)"

definition quantize :: "real \<Rightarrow> 16 word" where
  "quantize x = word_of_int (max (- 32768) (min 32767 (roundHalfAway (x * 32768))))"

definition littleEndian :: "16 word \<Rightarrow> 8 word list" where
  "littleEndian w = [ucast w, ucast (drop_bit 8 w)]"

definition encode :: "real list \<Rightarrow> 8 word list" where
  "encode samples = concat (map (\<lambda>x. littleEndian (quantize x)) samples)"

fun decode :: "8 word list \<Rightarrow> CodecError + real list" where
  "decode [] = Inr []"
| "decode [b] = Inl OddLength"
| "decode (lo # hi # bytes) =
     (case decode bytes of
        Inl e \<Rightarrow> Inl e
      | Inr samples \<Rightarrow>
          Inr (real_of_int (sint (word_cat hi lo :: 16 word)) / 32768 # samples))"

section \<open>Concrete sessions\<close>

text \<open>Inputs on which the theorems below are evaluated.\<close>

definition italiano :: Language where
  "italiano = hd LANGUAGES"

definition granted :: browser where
  "granted =
     \<lparr>newAudioContext = Some Running, resumeOk = True, connectOk = True,
      getUserMedia = Some [Live]\<rparr>"

definition refused :: browser where
  "refused = granted\<lparr>getUserMedia := None\<rparr>"

definition tick :: "real \<Rightarrow> real \<Rightarrow> clock" where
  "tick t d = \<lparr>currentTime = t, dateNow = 0, bufferDuration = d\<rparr>"

definition fresh :: closure where
  "fresh = \<lparr>capturedLanguage = italiano, capturedUserText = [], capturedModelText = []\<rparr>"

text \<open>A session connected from the initial state: the click, the socket opens, the promise is fulfilled.\<close>

definition openSession :: LiveTutor where
  "openSession = run [ClickMic granted, Open, Fulfil] (initial italiano)"

text \<open>Messages delivered in order to the callbacks of one connection.\<close>

definition deliver ::
  "closure \<Rightarrow> (clock \<times> LiveServerMessage) list \<Rightarrow> LiveTutor \<Rightarrow> LiveTutor" where
  "deliver c kms s = fold (\<lambda>(k, m). onmessage c k m) kms s"

definition three_messages :: "(clock \<times> LiveServerMessage) list" where
  "three_messages =
     [(tick 1 2, AudioChunk ''AAAA''), (tick 2 0, OutputTranscriptDelta ''Ciao''),
      (tick 2 (1 / 2), AudioChunk ''BBBB'')]"

text \<open>
  The microphone is switched on, the connection closes, and the next click connects
  again: \<open>onclose\<close> leaves the stream and the processor in place, so frames are
  still captured while the new promise is pending.
\<close>

definition reconnecting :: LiveTutor where
  "reconnecting = run [ClickMic granted, Close, ClickMic granted] openSession"

text \<open>A chunk of two seconds is scheduled at clock 1 in the open session.\<close>

definition playing :: LiveTutor where
  "playing = run [Message (tick 1 2) (AudioChunk ''AAAA'')] openSession"



text \<open>The session that \<open>connectToLive\<close> stores when the accumulators are empty.\<close>

definition connecting :: LiveSession where
  "connecting = \<lparr>callbacks = fresh, sessionPromise = Pending [], socket = Connecting,
                  sendRealtimeInput = []\<rparr>"





section \<open>Properties\<close>

lemmas handler_defs = run_def state_of_def with_session_def toggleMic_def connectToLive_def
  ensureAudioContexts_def onopen_def onmessage_def playAudio_def inTrans_def outTrans_def
  commitTurn_def interrupt_def onclose_def onerror_def onaudioprocess_def fulfil_def reject_def
  disconnectVoice_def ended_def initial_def noContent_def AudioChunk_def
  InputTranscriptDelta_def OutputTranscriptDelta_def TurnComplete_def Interrupted_def
  granted_def refused_def tick_def openSession_def fresh_def

subsection \<open>Playback scheduling\<close>

lemma deliver_snoc: "deliver c (kms @ [(k, m)]) s = onmessage c k m (deliver c kms s)"
  by (simp add: deliver_def)

lemma deliver_Suc:
  assumes "i < length kms"
  shows "deliver c (take (Suc i) kms) s
         = onmessage c (fst (kms ! i)) (snd (kms ! i)) (deliver c (take i kms) s)"
proof -
  have "take (Suc i) kms = take i kms @ [(fst (kms ! i), snd (kms ! i))]"
    using assms by (simp add: take_Suc_conv_app_nth)
  then show ?thesis by (simp only: deliver_snoc)
qed

lemma onmessage_outputAudioContextRef:
  "outputAudioContextRef (onmessage c k m s) = outputAudioContextRef s"
  by (simp add: onmessage_def interrupt_def commitTurn_def outTrans_def inTrans_def
      playAudio_def Let_def split: option.splits)

lemma deliver_outputAudioContextRef:
  "outputAudioContextRef (deliver c kms s) = outputAudioContextRef s"
  by (induction kms arbitrary: s) (auto simp: deliver_def onmessage_outputAudioContextRef)

lemma onmessage_schedules:
  assumes "outputAudioContextRef s \<noteq> None" and "truthy (inlineData m)" and "\<not> interrupted m"
  shows "nextStartTimeRef (onmessage c k m s)
           = max (nextStartTimeRef s) (currentTime k) + bufferDuration k"
    and "sourcesRef (onmessage c k m s)
           = sourcesRef s @ [\<lparr>node = createdNodes s,
                               startedAt = max (nextStartTimeRef s) (currentTime k),
                               duration = bufferDuration k\<rparr>]"
  using assms
  by (simp_all add: onmessage_def interrupt_def commitTurn_def outTrans_def inTrans_def
      playAudio_def Let_def split: option.splits)

lemma onmessage_passes:
  assumes "\<not> truthy (inlineData m)" and "\<not> interrupted m"
  shows "nextStartTimeRef (onmessage c k m s) = nextStartTimeRef s"
    and "sourcesRef (onmessage c k m s) = sourcesRef s"
  using assms
  by (simp_all add: onmessage_def interrupt_def commitTurn_def outTrans_def inTrans_def
      playAudio_def Let_def split: option.splits)

text \<open>
  C1. Messages, none of them an interruption, are delivered in order to a session whose
  output context exists, each audio buffer having a non-negative duration. At every
  position of the sequence the cursor \<open>nextStartTimeRef\<close> does not decrease. A message
  that carries audio is started at the larger of the cursor and the clock, the cursor
  afterwards is that start plus the chunk's duration, and the chunk joins the active
  set: the next chunk starts where this one ends unless the clock has already passed
  that point. A message without audio leaves the cursor and the active set alone.
\<close>

theorem playback_back_to_back:
  assumes ctx: "outputAudioContextRef s \<noteq> None"
    and quiet: "\<forall>(k, m) \<in> set kms. \<not> interrupted m \<and> 0 \<le> bufferDuration k"
    and i: "i < length kms"
  shows "let before = deliver c (take i kms) s;
             after = deliver c (take (Suc i) kms) s;
             k = fst (kms ! i);
             startAt = max (nextStartTimeRef before) (currentTime k)
         in nextStartTimeRef before \<le> nextStartTimeRef after
          \<and> (if truthy (inlineData (snd (kms ! i)))
              then nextStartTimeRef after = startAt + bufferDuration k
                 \<and> sourcesRef after
                     = sourcesRef before @ [\<lparr>node = createdNodes before, startedAt = startAt,
                                              duration = bufferDuration k\<rparr>]
              else nextStartTimeRef after = nextStartTimeRef before
                 \<and> sourcesRef after = sourcesRef before)"
proof -
  obtain k m where km: "kms ! i = (k, m)" by (cases "kms ! i")
  have "(k, m) \<in> set kms" using i km by (metis nth_mem)
  with quiet have m: "\<not> interrupted m" and d: "0 \<le> bufferDuration k"
    by auto
  let ?before = "deliver c (take i kms) s"
  have ctx': "outputAudioContextRef ?before \<noteq> None"
    using ctx by (simp add: deliver_outputAudioContextRef)
  have step: "deliver c (take (Suc i) kms) s = onmessage c k m ?before"
    using deliver_Suc [OF i] km by simp
  show ?thesis
  proof (cases "truthy (inlineData m)")
    case True
    then show ?thesis
      using onmessage_schedules [OF ctx' True m, of c k] d
      by (simp add: step km Let_def)
  next
    case False
    then show ?thesis
      using onmessage_passes [OF False m, of c k ?before]
      by (simp add: step km Let_def)
  qed
qed

theorem playback_back_to_back_witness:
  "outputAudioContextRef openSession \<noteq> None
   \<and> \<not> interrupted (AudioChunk ''AAAA'') \<and> 0 \<le> bufferDuration (tick 1 2)
   \<and> \<not> interrupted (OutputTranscriptDelta ''Ciao'') \<and> 0 \<le> bufferDuration (tick 2 0)
   \<and> \<not> interrupted (AudioChunk ''BBBB'') \<and> 0 \<le> bufferDuration (tick 2 (1 / 2))
   \<and> 2 < length three_messages
   \<and> nextStartTimeRef (deliver fresh (take 2 three_messages) openSession) = 3
   \<and> nextStartTimeRef (deliver fresh (take 3 three_messages) openSession) = 3 + 1 / 2
   \<and> map startedAt (sourcesRef (deliver fresh (take 3 three_messages) openSession)) = [1, 3]"
proof -
  have h1: "outputAudioContextRef openSession \<noteq> None"
    by (simp add: handler_defs)
  have a: "\<not> interrupted (AudioChunk ''AAAA'')" "0 \<le> bufferDuration (tick 1 2)"
    "\<not> interrupted (OutputTranscriptDelta ''Ciao'')" "0 \<le> bufferDuration (tick 2 0)"
    "\<not> interrupted (AudioChunk ''BBBB'')" "0 \<le> bufferDuration (tick 2 (1 / 2))"
    by (simp_all add: handler_defs)
  have h2: "\<forall>(k, m) \<in> set three_messages. \<not> interrupted m \<and> 0 \<le> bufferDuration k"
    using a by (simp add: three_messages_def)
  have h3: "2 < length three_messages"
    by (simp add: three_messages_def)
  have before: "nextStartTimeRef (deliver fresh (take 2 three_messages) openSession) = 3"
    "sourcesRef (deliver fresh (take 2 three_messages) openSession)
       = [\<lparr>node = 0, startedAt = 1, duration = 2\<rparr>]"
    "createdNodes (deliver fresh (take 2 three_messages) openSession) = 1"
    by (simp_all add: three_messages_def deliver_def handler_defs Let_def)
  have "take (Suc 2) three_messages = take 3 three_messages"
    by (simp add: numeral_3_eq_3)
  then show ?thesis
    using playback_back_to_back [OF h1 h2 h3, of fresh] h1 a h3 before
    by (simp add: Let_def three_messages_def AudioChunk_def noContent_def tick_def)
qed

subsection \<open>Interruption\<close>

text \<open>
  C2, as stated, fails: the interruption sets the cursor to 0, not to the clock. A
  chunk is scheduled at clock 1 and the interruption arrives at clock 2.
\<close>

theorem interrupted_cursor_counterexample:
  "nextStartTimeRef (run [Message (tick 1 2) (AudioChunk ''AAAA''),
                          Message (tick 2 0) Interrupted] openSession)
   \<noteq> currentTime (tick 2 0)"
  by (simp add: handler_defs Let_def)

text \<open>
  C2, amended. A message with \<open>interrupted\<close> calls \<open>stop()\<close> on every active chunk,
  empties the active set and resets the cursor to 0. A following audio message, handled
  at a clock that is not negative, is the only active chunk and starts exactly at that
  clock.
\<close>

theorem interrupted_resets:
  assumes "interrupted m"
    and "outputAudioContextRef s \<noteq> None"
    and "truthy (inlineData m')" and "\<not> interrupted m'"
    and "0 \<le> currentTime k'"
  shows "sourcesRef (onmessage c k m s) = []
       \<and> set (map node (sourcesRef s)) \<subseteq> set (stopped (onmessage c k m s))
       \<and> nextStartTimeRef (onmessage c k m s) = 0
       \<and> sourcesRef (onmessage c' k' m' (onmessage c k m s))
           = [\<lparr>node = createdNodes (onmessage c k m s), startedAt = currentTime k',
               duration = bufferDuration k'\<rparr>]"
proof -
  let ?s1 = "onmessage c k m s"
  have a: "sourcesRef ?s1 = []" and b: "nextStartTimeRef ?s1 = 0"
    using assms(1) by (simp_all add: onmessage_def interrupt_def)
  have c: "set (map node (sourcesRef s)) \<subseteq> set (stopped ?s1)"
    using assms(1)
    by (auto simp add: onmessage_def interrupt_def commitTurn_def outTrans_def inTrans_def
        playAudio_def Let_def split: option.splits)
  have ctx: "outputAudioContextRef ?s1 \<noteq> None"
    using assms(2) by (simp add: onmessage_outputAudioContextRef)
  show ?thesis
    using a b c onmessage_schedules(2) [OF ctx assms(3,4), of c' k'] assms(5)
    by simp
qed

theorem interrupted_resets_witness:
  "interrupted Interrupted
   \<and> outputAudioContextRef playing \<noteq> None
   \<and> truthy (inlineData (AudioChunk ''BBBB'')) \<and> \<not> interrupted (AudioChunk ''BBBB'')
   \<and> 0 \<le> currentTime (tick 7 2)
   \<and> map node (sourcesRef playing) = [0]
   \<and> nextStartTimeRef playing = 3
   \<and> stopped playing = []
   \<and> sourcesRef (onmessage fresh (tick 2 0) Interrupted playing) = []
   \<and> stopped (onmessage fresh (tick 2 0) Interrupted playing) = [0]
   \<and> nextStartTimeRef (onmessage fresh (tick 2 0) Interrupted playing) = 0
   \<and> sourcesRef (onmessage fresh (tick 7 2) (AudioChunk ''BBBB'')
                    (onmessage fresh (tick 2 0) Interrupted playing))
       = [\<lparr>node = 1, startedAt = 7, duration = 2\<rparr>]"
proof -
  have h1: "interrupted Interrupted" by (simp add: handler_defs)
  have h2: "outputAudioContextRef playing \<noteq> None" by (simp add: playing_def handler_defs)
  have h3: "truthy (inlineData (AudioChunk ''BBBB''))" by (simp add: handler_defs)
  have h4: "\<not> interrupted (AudioChunk ''BBBB'')" by (simp add: handler_defs)
  have h5: "0 \<le> currentTime (tick 7 2)" by (simp add: handler_defs)
  have before: "map node (sourcesRef playing) = [0]" "nextStartTimeRef playing = 3"
    "stopped playing = []"
    by (simp_all add: playing_def handler_defs Let_def)
  have after: "stopped (onmessage fresh (tick 2 0) Interrupted playing) = [0]"
    "createdNodes (onmessage fresh (tick 2 0) Interrupted playing) = 1"
    by (simp_all add: playing_def handler_defs Let_def)
  show ?thesis
    using interrupted_resets [OF h1 h2 h3 h4 h5, of fresh "tick 2 0" fresh]
      h1 h2 h3 h4 h5 before after
    by (simp add: tick_def)
qed

subsection \<open>Transcript\<close>

text \<open>
  What a completed turn appends is decided by the closure alone, whatever the
  accumulators hold.
\<close>

lemma turnComplete_reads_closure:
  assumes "turnComplete m"
  shows "voiceMessages (onmessage c k m s)
         = voiceMessages s
           @ (if trim (capturedUserText c) \<noteq> []
              then [\<lparr>id_msg = digits (dateNow k) @ ''_u'', role = User,
                      text_msg = capturedUserText c\<rparr>] else [])
           @ (if trim (capturedModelText c) \<noteq> []
              then [\<lparr>id_msg = digits (dateNow k) @ ''_m'', role = Model,
                      text_msg = capturedModelText c\<rparr>] else [])"
  using assms
  by (simp add: onmessage_def interrupt_def commitTurn_def outTrans_def inTrans_def
      playAudio_def Let_def split: option.splits)

text \<open>
  C3 on the code. The session is connected with empty accumulators, the tutor's deltas
  \<open>Bon\<close> and \<open>jour\<close> accumulate to \<open>Bonjour\<close>, and the turn completes: the log still
  holds the greeting only, and the accumulator is not cleared. The test at the commit
  reads the text captured when the connection was made.
\<close>

theorem turn_complete_commits_nothing:
  "currentLiveModelText (run [Message (tick 1 0) (OutputTranscriptDelta ''Bon''),
                              Message (tick 1 0) (OutputTranscriptDelta ''jour'')] openSession)
     = ''Bonjour''
   \<and> voiceMessages (run [Message (tick 1 0) (OutputTranscriptDelta ''Bon''),
                        Message (tick 1 0) (OutputTranscriptDelta ''jour''),
                        Message (tick 1 0) TurnComplete] openSession)
     = voiceMessages openSession
   \<and> map role (voiceMessages openSession) = [Model]
   \<and> map id_msg (voiceMessages openSession) = [''start'']
   \<and> currentLiveModelText (run [Message (tick 1 0) (OutputTranscriptDelta ''Bon''),
                              Message (tick 1 0) (OutputTranscriptDelta ''jour''),
                              Message (tick 1 0) TurnComplete] openSession)
     = ''Bonjour''"
  by (simp add: handler_defs Let_def trim_def)

text \<open>
  C5 on the code. Both accumulators hold text when the turn completes, and neither
  message is appended.
\<close>

theorem turn_complete_both_speakers:
  "currentLiveUserText (run [Message (tick 1 0) (InputTranscriptDelta ''Ciao''),
                             Message (tick 1 0) (OutputTranscriptDelta ''Salve'')] openSession)
     = ''Ciao''
   \<and> currentLiveModelText (run [Message (tick 1 0) (InputTranscriptDelta ''Ciao''),
                              Message (tick 1 0) (OutputTranscriptDelta ''Salve'')] openSession)
     = ''Salve''
   \<and> voiceMessages (run [Message (tick 1 0) (InputTranscriptDelta ''Ciao''),
                        Message (tick 1 0) (OutputTranscriptDelta ''Salve''),
                        Message (tick 1 0) TurnComplete] openSession)
     = voiceMessages openSession"
  by (simp add: handler_defs Let_def trim_def)

subsection \<open>Teardown\<close>







subsection \<open>Connecting\<close>

text \<open>
  C6. While a connection is being made or is open, \<open>connectToLive\<close> returns the state
  unchanged: no call of \<open>ai.live.connect\<close>, no other effect.
\<close>

theorem connect_noop:
  "isConnectingRef s \<or> isConnected s \<Longrightarrow> connectToLive b s = s"
  by (simp add: connectToLive_def)

theorem connect_noop_witness:
  "(isConnectingRef openSession \<or> isConnected openSession)
   \<and> connectToLive granted openSession = openSession
   \<and> connectCalls (connectToLive granted openSession) = 1"
proof -
  have h: "isConnectingRef openSession \<or> isConnected openSession"
    by (simp add: handler_defs)
  have n: "connectCalls openSession = 1"
    by (simp add: handler_defs)
  show ?thesis using connect_noop [OF h, of granted] h n by simp
qed

subsection \<open>Captured frames\<close>

text \<open>
  C7, as stated, fails: a frame captured while the socket is connecting is not sent
  at once, waits on the promise, and is sent when the promise is fulfilled.
\<close>

theorem frame_while_connecting_counterexample:
  "map_option socket (liveSessionRef reconnecting) = Some Connecting
   \<and> map_option sendRealtimeInput
       (liveSessionRef (run [AudioProcess ''frame''] reconnecting)) = Some []
   \<and> map_option sendRealtimeInput
       (liveSessionRef (run [AudioProcess ''frame'', Open, Fulfil] reconnecting))
     = Some [''frame'']"
  by (simp add: reconnecting_def handler_defs Let_def)

text \<open>
  C7, amended. A captured frame is dropped when \<open>liveSessionRef\<close> is empty. While the
  promise is pending the frame joins the reactions waiting on it, and all of them are
  sent in order when the promise is fulfilled. Once the promise is fulfilled a frame is
  handed to the session at once.
\<close>

theorem capture_frame_routing:
  assumes "liveSessionRef s0 = None"
    and "liveSessionRef s1 = Some x1" and "sessionPromise x1 = Pending waiting"
    and "liveSessionRef s2 = Some x2" and "sessionPromise x2 = Fulfilled"
  shows "onaudioprocess f s0 = s0
       \<and> liveSessionRef (onaudioprocess f s1)
           = Some (x1\<lparr>sessionPromise := Pending (waiting @ [f])\<rparr>)
       \<and> sendRealtimeInput (fulfil (x1\<lparr>sessionPromise := Pending (waiting @ [f])\<rparr>))
           = sendRealtimeInput x1 @ waiting @ [f]
       \<and> liveSessionRef (onaudioprocess f s2)
           = Some (x2\<lparr>sendRealtimeInput := sendRealtimeInput x2 @ [f]\<rparr>)"
  using assms by (simp add: onaudioprocess_def fulfil_def)

theorem capture_frame_routing_witness:
  "liveSessionRef (initial italiano) = None
   \<and> liveSessionRef reconnecting = Some connecting
   \<and> sessionPromise connecting = Pending []
   \<and> liveSessionRef openSession = Some (connecting\<lparr>sessionPromise := Fulfilled, socket := Opened\<rparr>)
   \<and> sessionPromise (connecting\<lparr>sessionPromise := Fulfilled, socket := Opened\<rparr>) = Fulfilled
   \<and> onaudioprocess ''frame'' (initial italiano) = initial italiano
   \<and> sendRealtimeInput (fulfil (connecting\<lparr>sessionPromise := Pending [''frame'']\<rparr>))
       = [''frame'']"
proof -
  have h0: "liveSessionRef (initial italiano) = None"
    by (simp add: handler_defs)
  have h1: "liveSessionRef reconnecting = Some connecting"
    by (simp add: reconnecting_def connecting_def handler_defs Let_def)
  have h2: "sessionPromise connecting = Pending []"
    by (simp add: connecting_def)
  have h3: "liveSessionRef openSession
              = Some (connecting\<lparr>sessionPromise := Fulfilled, socket := Opened\<rparr>)"
    by (simp add: connecting_def handler_defs Let_def)
  have h4: "sessionPromise (connecting\<lparr>sessionPromise := Fulfilled, socket := Opened\<rparr>)
              = Fulfilled"
    by simp
  show ?thesis
    using capture_frame_routing [OF h0 h1 h2 h3 h4, of "''frame''"] h0 h1 h2 h3 h4
    by (simp add: connecting_def)
qed

subsection \<open>Microphone refused\<close>

lemma ensureAudioContexts_frame:
  assumes "ensureAudioContexts b s = Returns s1"
  shows "isConnected s1 = isConnected s" and "isMicOn s1 = isMicOn s"
    and "voiceStatus s1 = voiceStatus s" and "streamRef s1 = streamRef s"
    and "mediaStreams s1 = mediaStreams s"
    and "scriptProcessorRef s1 = scriptProcessorRef s"
    and "liveSessionRef s1 = liveSessionRef s"
  using assms
  by (auto simp add: ensureAudioContexts_def Let_def split: if_splits)

text \<open>
  C8. The session is connected, the microphone is off, and \<open>getUserMedia\<close> is refused:
  \<open>toggleMic\<close> returns with the error field set and nothing else changed by the refusal;
  the session is still connected with the microphone off, the status, the stream
  reference, the store of streams, the processor and the live session are what they
  were.
\<close>

theorem mic_refused:
  assumes "isConnected s" and "\<not> isMicOn s" and "getUserMedia b = None"
    and "ensureAudioContexts b s = Returns s1"
  shows "toggleMic b s = Returns (s1\<lparr>voiceError := Some ''Sem acesso ao microfone''\<rparr>)
       \<and> isConnected s1 \<and> \<not> isMicOn s1 \<and> voiceStatus s1 = voiceStatus s
       \<and> streamRef s1 = streamRef s \<and> scriptProcessorRef s1 = scriptProcessorRef s
       \<and> mediaStreams s1 = mediaStreams s
       \<and> liveSessionRef s1 = liveSessionRef s"
proof -
  have "toggleMic b s = Returns (s1\<lparr>voiceError := Some ''Sem acesso ao microfone''\<rparr>)"
    using assms by (simp add: toggleMic_def)
  then show ?thesis
    using assms(1,2) ensureAudioContexts_frame [OF assms(4)] by simp
qed

theorem mic_refused_witness:
  "isConnected openSession \<and> \<not> isMicOn openSession \<and> getUserMedia refused = None
   \<and> ensureAudioContexts refused openSession = Returns openSession
   \<and> toggleMic refused openSession
       = Returns (openSession\<lparr>voiceError := Some ''Sem acesso ao microfone''\<rparr>)
   \<and> streamRef openSession = None \<and> scriptProcessorRef openSession = None
   \<and> mediaStreams openSession = []"
proof -
  have h1: "isConnected openSession" and h2: "\<not> isMicOn openSession"
    and h3: "getUserMedia refused = None"
    and h5: "streamRef openSession = None" "scriptProcessorRef openSession = None"
      "mediaStreams openSession = []"
    by (simp_all add: handler_defs)
  have h4: "ensureAudioContexts refused openSession = Returns openSession"
    by (simp add: handler_defs)
  show ?thesis
    using mic_refused [OF h1 h2 h3 h4] h1 h2 h3 h4 h5 by simp
qed

subsection \<open>The language in the URL\<close>








subsection \<open>The codec\<close>

lemma cat_littleEndian:
  "word_cat (ucast (drop_bit 8 w) :: 8 word) (ucast w :: 8 word) = (w :: 16 word)"
  by (rule bit_word_eqI) (auto simp add: bit_simps)

lemma sint_in_range:
  "- 32768 \<le> q \<Longrightarrow> q \<le> 32767 \<Longrightarrow> sint (word_of_int q :: 16 word) = q"
  by (simp add: sint_sbintrunc' signed_take_bit_int_eq_self)

lemma decode_encode:
  "decode (encode samples)
     = Inr (map (\<lambda>x. real_of_int (sint (quantize x)) / 32768) samples)"
  by (induction samples) (simp_all add: encode_def littleEndian_def cat_littleEndian)

lemma roundHalfAway_near:
  "\<bar>real_of_int (roundHalfAway y) - y\<bar> \<le> 1 / 2"
proof (cases "0 \<le> y")
  case True
  then have "roundHalfAway y = \<lfloor>y + 1 / 2\<rfloor>" by (simp add: roundHalfAway_def)
  then show ?thesis using floor_correct [of "y + 1 / 2"] by linarith
next
  case False
  then have "roundHalfAway y = - \<lfloor>- y + 1 / 2\<rfloor>" by (simp add: roundHalfAway_def)
  then have "real_of_int (roundHalfAway y) = - real_of_int \<lfloor>- y + 1 / 2\<rfloor>"
    by (simp only: of_int_minus)
  moreover have "real_of_int \<lfloor>- y + 1 / 2\<rfloor> \<le> - y + 1 / 2"
    and "- y + 1 / 2 < real_of_int \<lfloor>- y + 1 / 2\<rfloor> + 1"
    by linarith+
  ultimately show ?thesis by linarith
qed

lemma roundHalfAway_bounds:
  assumes "- 32768 \<le> y" and "y \<le> 32768"
  shows "- 32768 \<le> roundHalfAway y" and "roundHalfAway y \<le> 32768"
proof -
  have "\<bar>real_of_int (roundHalfAway y) - y\<bar> \<le> 1 / 2" by (rule roundHalfAway_near)
  then have "- 32768 - 1 / 2 \<le> real_of_int (roundHalfAway y)"
    and "real_of_int (roundHalfAway y) \<le> 32768 + 1 / 2"
    using assms by linarith+
  then show "- 32768 \<le> roundHalfAway y" and "roundHalfAway y \<le> 32768"
    by linarith+
qed

lemma quantize_error:
  assumes "- 1 \<le> x" and "x \<le> 1"
  shows "\<bar>real_of_int (sint (quantize x)) / 32768 - x\<bar> \<le> 1 / 32768"
proof -
  define y where "y = x * 32768"
  define r where "r = roundHalfAway y"
  define q where "q = max (- 32768) (min 32767 r)"
  have y: "- 32768 \<le> y" "y \<le> 32768" using assms by (simp_all add: y_def)
  have r: "- 32768 \<le> r" "r \<le> 32768" "\<bar>real_of_int r - y\<bar> \<le> 1 / 2"
    using roundHalfAway_bounds [OF y] roundHalfAway_near [of y] by (simp_all add: r_def)
  have q: "- 32768 \<le> q" "q \<le> 32767" by (simp_all add: q_def)
  have "q = r \<or> (r = 32768 \<and> q = 32767)" using r(1,2) by (auto simp add: q_def)
  then have near: "\<bar>real_of_int q - y\<bar> \<le> 1"
  proof
    assume "q = r" then show ?thesis using r(3) by simp
  next
    assume "r = 32768 \<and> q = 32767"
    then show ?thesis using r(3) y(2) by simp
  qed
  have s: "sint (quantize x) = q"
    using sint_in_range [OF q] by (simp add: quantize_def q_def r_def y_def)
  have e: "real_of_int q / 32768 - x = (real_of_int q - y) / 32768"
    by (simp add: y_def field_simps)
  have "\<bar>(real_of_int q - y) / 32768\<bar> = \<bar>real_of_int q - y\<bar> / 32768"
    by simp
  also have "\<dots> \<le> 1 / 32768"
    using near by (intro divide_right_mono) simp_all
  finally show ?thesis by (simp only: s e)
qed

text \<open>
  C9. For samples between -1 and 1, decoding the encoded bytes succeeds, gives as many
  samples as were encoded, and each differs from the original by at most 1/32768.
\<close>

theorem codec_roundtrip:
  assumes "\<forall>x \<in> set samples. - 1 \<le> x \<and> x \<le> 1"
  shows "\<exists>decoded. decode (encode samples) = Inr decoded
           \<and> length decoded = length samples
           \<and> (\<forall>i < length samples. \<bar>decoded ! i - samples ! i\<bar> \<le> 1 / 32768)"
proof (intro exI conjI allI impI)
  show "decode (encode samples)
          = Inr (map (\<lambda>x. real_of_int (sint (quantize x)) / 32768) samples)"
    by (rule decode_encode)
  show "length (map (\<lambda>x. real_of_int (sint (quantize x)) / 32768) samples) = length samples"
    by simp
  fix i assume i: "i < length samples"
  then have "- 1 \<le> samples ! i \<and> samples ! i \<le> 1" using assms by simp
  then show "\<bar>map (\<lambda>x. real_of_int (sint (quantize x)) / 32768) samples ! i - samples ! i\<bar>
               \<le> 1 / 32768"
    using i quantize_error by simp
qed

theorem codec_roundtrip_witness:
  "- 1 \<le> (1 / 2 :: real) \<and> (1 / 2 :: real) \<le> 1 \<and> - 1 \<le> (- 1 :: real) \<and> (- 1 :: real) \<le> 1
   \<and> - 1 \<le> (1 :: real) \<and> (1 :: real) \<le> 1
   \<and> - 1 \<le> (1 / 100000 :: real) \<and> (1 / 100000 :: real) \<le> 1
   \<and> encode [1 / 2, - 1, 1, 1 / 100000] = [0, 64, 0, 128, 255, 127, 0, 0]
   \<and> decode (encode [1 / 2, - 1, 1, 1 / 100000]) = Inr [1 / 2, - 1, 32767 / 32768, 0]"
proof -
  have h: "\<forall>x \<in> set [1 / 2, - 1, 1, 1 / 100000 :: real]. - 1 \<le> x \<and> x \<le> 1"
    by simp
  have e: "encode [1 / 2, - 1, 1, 1 / 100000] = [0, 64, 0, 128, 255, 127, 0, 0]"
    by code_simp
  have d: "decode [0, 64, 0, 128, 255, 127, 0, 0] = Inr [1 / 2, - 1, 32767 / 32768, 0]"
    by code_simp
  show ?thesis
    using codec_roundtrip [OF h] h e d by simp
qed

end
